theory Spec2Isabelle
  imports Complex_Main
begin

section \<open>The text-to-video pipeline of \<^verbatim>\<open>src/app.py\<close> and \<^verbatim>\<open>src/api/app.py\<close>\<close>

text \<open>
  Both source files define the same function \<^verbatim>\<open>text_to_video(text, font_path,
  background_images, outputfile)\<close>. The two bodies differ in one place only: the file under
  \<^verbatim>\<open>src/api\<close> tests \<^verbatim>\<open>os.path.exists(font_path)\<close> and raises
  \<^verbatim>\<open>FileNotFoundError\<close> before it calls \<^verbatim>\<open>ImageFont.truetype\<close>.

  Conventions of the embedding:
  \<^item> Python \<^verbatim>\<open>int\<close> is \<^typ>\<open>int\<close> or \<^typ>\<open>nat\<close> (lengths, indices);
  \<^item> Python \<^verbatim>\<open>float\<close> is \<^typ>\<open>real\<close>: arithmetic is exact; the rounding of the two
    divisions that give the durations is added in \<open>rounded_durations\<close> below;
  \<^item> the text and its words are Python \<^verbatim>\<open>str\<close> values: lists of Unicode code points,
    each a \<^typ>\<open>nat\<close>; file paths are only compared and stay \<^typ>\<open>string\<close>;
  \<^item> a raised exception is the left injection of a sum;
  \<^item> the libraries the function calls (PIL, gTTS, pydub, moviepy, the file system) are
    the fields of an environment record: each says whether the call succeeds and what
    it returns;
  \<^item> the file system the function changes is a record that is passed in and returned.

  The calls that can raise in the model are \<^verbatim>\<open>os.path.exists\<close> with the explicit
  \<^verbatim>\<open>raise\<close>, \<^verbatim>\<open>ImageFont.truetype\<close>, \<^verbatim>\<open>gTTS\<close> with \<^verbatim>\<open>tts.save\<close> and
  \<^verbatim>\<open>AudioSegment.from_file\<close>, the division by \<^verbatim>\<open>len(words)\<close>, the modulo by
  \<^verbatim>\<open>len(background_images)\<close>, the two list subscripts, \<^verbatim>\<open>Image.open\<close>,
  \<^verbatim>\<open>AudioFileClip\<close>, \<^verbatim>\<open>ImageSequenceClip\<close> and \<^verbatim>\<open>write_videofile\<close>. Measuring and
  drawing the text on an image that was opened are taken to succeed.
\<close>

type_synonym py_str = "nat list"

text \<open>A literal of ASCII characters as a Python string.\<close>

definition ascii :: "string \<Rightarrow> py_str" where
  "ascii s = map of_char s"

subsection \<open>Module constants\<close>

record config =
  TEXT_SPEED :: nat
  TEXT_COLOR :: "nat \<times> nat \<times> nat"
  FONT_SIZE :: nat
  TIMING_ADJUSTMENT :: real
  VIDEO_SIZE :: "nat \<times> nat"
  BACKGROUND_INTERVALS :: "int list"

definition default_config :: config where
  "default_config =
     \<lparr>TEXT_SPEED = 24,
      TEXT_COLOR = (0, 0, 0),
      FONT_SIZE = 180,
      TIMING_ADJUSTMENT = - 3 / 10,
      VIDEO_SIZE = (1080, 1920),
      BACKGROUND_INTERVALS = [10, 22, 35]\<rparr>"

subsection \<open>Exceptions\<close>

datatype py_exception =
    FileNotFoundError string  \<comment> \<open>\<^verbatim>\<open>src/api/app.py\<close> line 46, with the font path\<close>
  | OSError  \<comment> \<open>\<^verbatim>\<open>ImageFont.truetype\<close>: cannot open resource\<close>
  | AssertionError  \<comment> \<open>gTTS: no text to speak\<close>
  | NarrationError
      \<comment> \<open>\<^verbatim>\<open>gTTS(...)\<close>, \<^verbatim>\<open>tts.save\<close> or \<^verbatim>\<open>AudioSegment.from_file\<close> failed\<close>
  | ZeroDivisionError
  | IndexError
  | ImageOpenError string  \<comment> \<open>\<^verbatim>\<open>Image.open(path)\<close> failed\<close>
  | AudioFileClipError  \<comment> \<open>\<^verbatim>\<open>AudioFileClip\<close> failed\<close>
  | ImageSequenceClipError  \<comment> \<open>\<^verbatim>\<open>ImageSequenceClip\<close> failed\<close>
  | WriteVideoError  \<comment> \<open>\<^verbatim>\<open>clip.write_videofile\<close> failed\<close>

subsection \<open>The libraries and the file system\<close>

record frame =
  frame_word :: py_str
  frame_background :: string
  frame_position :: "real \<times> real"
  frame_fill :: "nat \<times> nat \<times> nat"

record clip =
  clip_images :: "frame list"
  clip_durations :: "real list"
  clip_audio :: nat  \<comment> \<open>length of the audio track in milliseconds\<close>
  clip_fps :: nat

record world =
  temp_mp3 :: "nat option"  \<comment> \<open>the temporary audio file: absent, or its length in milliseconds\<close>
  videos :: "(string \<times> clip) list"
    \<comment> \<open>the files \<^verbatim>\<open>write_videofile\<close> has completed, newest first\<close>

record env =
  path_exists :: "string \<Rightarrow> bool"  \<comment> \<open>\<^verbatim>\<open>os.path.exists\<close>\<close>
  font_parses :: "string \<Rightarrow> nat \<Rightarrow> bool"  \<comment> \<open>the file is a font FreeType can load at that size\<close>
  getbbox :: "string \<Rightarrow> nat \<Rightarrow> py_str \<Rightarrow> int \<times> int \<times> int \<times> int"
  gtts_save :: "py_str \<Rightarrow> nat option"
    \<comment> \<open>for a text with something to speak: the milliseconds of speech that gTTS saved and
        pydub read back, or one of these calls raises\<close>
  gtts_leftover :: "py_str \<Rightarrow> nat option \<Rightarrow> nat option"
    \<comment> \<open>what a call that raises leaves of the audio file, given what was there\<close>
  image_open_ok :: "string \<Rightarrow> bool"  \<comment> \<open>\<^verbatim>\<open>Image.open(path).resize(VIDEO_SIZE)\<close> succeeds\<close>
  audio_file_clip_ok :: bool  \<comment> \<open>\<^verbatim>\<open>AudioFileClip\<close> reads the audio file\<close>
  image_sequence_clip_ok :: "frame list \<Rightarrow> bool"
    \<comment> \<open>\<^verbatim>\<open>ImageSequenceClip\<close> accepts the frames (it wants arrays of one shape)\<close>
  write_videofile_ok :: "string \<Rightarrow> bool"

text \<open>
  \<^verbatim>\<open>ImageFont.truetype(font_path, FONT_SIZE)\<close> opens the file and parses it: it raises
  \<^verbatim>\<open>OSError\<close> when the file is missing or is not a font.
\<close>

definition truetype :: "env \<Rightarrow> string \<Rightarrow> nat \<Rightarrow> py_exception + (string \<times> nat)" where
  "truetype E font_path font_size =
     (if path_exists E font_path \<and> font_parses E font_path font_size
      then Inr (font_path, font_size) else Inl OSError)"

subsection \<open>\<^verbatim>\<open>text.split()\<close>\<close>

text \<open>
  \<^verbatim>\<open>str.split()\<close> without arguments cuts at runs of whitespace and returns no empty
  string. The whitespace of a Python \<^verbatim>\<open>str\<close> is the set of code points for which
  \<^verbatim>\<open>str.isspace\<close> holds: the ASCII controls U+0009 to U+000D and U+001C to U+001F, the
  space, U+0085, U+00A0, U+1680, U+2000 to U+200A, U+2028, U+2029, U+202F, U+205F and
  U+3000.
\<close>

definition is_space :: "nat \<Rightarrow> bool" where
  "is_space c =
     (c \<in> set [0x09, 0x0A, 0x0B, 0x0C, 0x0D, 0x1C, 0x1D, 0x1E, 0x1F, 0x20, 0x85, 0xA0,
               0x1680, 0x2000, 0x2001, 0x2002, 0x2003, 0x2004, 0x2005, 0x2006, 0x2007,
               0x2008, 0x2009, 0x200A, 0x2028, 0x2029, 0x202F, 0x205F, 0x3000])"

fun split_from :: "py_str \<Rightarrow> py_str \<Rightarrow> py_str list" where
  "split_from cur [] = (if cur = [] then [] else [cur])"
| "split_from cur (c # cs) =
     (if is_space c then (if cur = [] then split_from [] cs else cur # split_from [] cs)
      else split_from (cur @ [c]) cs)"

definition split_text :: "py_str \<Rightarrow> py_str list" where
  "split_text text = split_from [] text"

subsection \<open>The background schedule (lines 48 to 59 of \<^verbatim>\<open>src/app.py\<close>)\<close>

record sched =
  current_background_index :: nat
  background_change_time :: int
  image_duration :: real

text \<open>
  Lines 55 to 59, with \<open>n = len(background_images)\<close>. The modulo raises
  \<^verbatim>\<open>ZeroDivisionError\<close> when the list of images is empty.
\<close>

definition change_background :: "config \<Rightarrow> nat \<Rightarrow> sched \<Rightarrow> py_exception + sched" where
  "change_background cfg n s =
     (if image_duration s \<ge> of_int (background_change_time s) then
        (if n = 0 then Inl ZeroDivisionError
         else
           let i = (current_background_index s + 1) mod n in
           Inr \<lparr>current_background_index = i,
                background_change_time =
                  (if i < length (BACKGROUND_INTERVALS cfg)
                   then background_change_time s + BACKGROUND_INTERVALS cfg ! i
                   else background_change_time s),
                image_duration = 0\<rparr>)
      else Inr s)"

text \<open>
  The operation \<open>advance(duration)\<close>: line 77 of one iteration of the loop
  (\<^verbatim>\<open>image_duration += avg_word_duration\<close>) followed by lines 55 to 59 of the next.
\<close>

definition advance :: "config \<Rightarrow> nat \<Rightarrow> real \<Rightarrow> sched \<Rightarrow> py_exception + sched" where
  "advance cfg n d s = change_background cfg n (s\<lparr>image_duration := image_duration s + d\<rparr>)"

fun advance_all :: "config \<Rightarrow> nat \<Rightarrow> real list \<Rightarrow> sched \<Rightarrow> py_exception + sched" where
  "advance_all cfg n [] s = Inr s"
| "advance_all cfg n (d # ds) s =
     (case advance cfg n d s of Inl e \<Rightarrow> Inl e | Inr s' \<Rightarrow> advance_all cfg n ds s')"

subsection \<open>The loop over the words (lines 53 to 77)\<close>

record loop_state =
  sch :: sched
  images :: "frame list"
  durations :: "real list"

text \<open>Lines 64 to 72: the word drawn at the centre of a copy of the background.\<close>

definition draw_word :: "config \<Rightarrow> env \<Rightarrow> string \<times> nat \<Rightarrow> string \<Rightarrow> py_str \<Rightarrow> frame" where
  "draw_word cfg E fnt bg word =
     (case getbbox E (fst fnt) (snd fnt) word of
        (x0, y0, x1, y1) \<Rightarrow>
          let text_width = x1 - x0;
              text_height = y1 - y0
          in \<lparr>frame_word = word,
              frame_background = bg,
              frame_position =
                ((of_int (int (fst (VIDEO_SIZE cfg)) - text_width)) / 2,
                 (of_int (int (snd (VIDEO_SIZE cfg)) - text_height)) / 2),
              frame_fill = TEXT_COLOR cfg\<rparr>)"

text \<open>
  One iteration. An exception leaves the loop with the state it was raised in, so that
  the number of frames rendered before it can be read.
\<close>

definition render_word ::
  "config \<Rightarrow> env \<Rightarrow> string \<times> nat \<Rightarrow> string list \<Rightarrow> real \<Rightarrow> py_str \<Rightarrow> loop_state
     \<Rightarrow> (py_exception \<times> loop_state) + loop_state" where
  "render_word cfg E fnt background_images avg_word_duration word st =
     (case change_background cfg (length background_images) (sch st) of
        Inl e \<Rightarrow> Inl (e, st)
      | Inr s \<Rightarrow>
          if \<not> current_background_index s < length background_images
          then Inl (IndexError, st\<lparr>sch := s\<rparr>)
          else
            let p = background_images ! current_background_index s in
            if \<not> image_open_ok E p then Inl (ImageOpenError p, st\<lparr>sch := s\<rparr>)
            else
              Inr \<lparr>sch = s\<lparr>image_duration := image_duration s + avg_word_duration\<rparr>,
                   images = images st @ [draw_word cfg E fnt p word],
                   durations = durations st @ [avg_word_duration]\<rparr>)"

fun render_words ::
  "config \<Rightarrow> env \<Rightarrow> string \<times> nat \<Rightarrow> string list \<Rightarrow> real \<Rightarrow> py_str list \<Rightarrow> loop_state
     \<Rightarrow> (py_exception \<times> loop_state) + loop_state" where
  "render_words cfg E fnt background_images avg [] st = Inr st"
| "render_words cfg E fnt background_images avg (word # rest) st =
     (case render_word cfg E fnt background_images avg word st of
        Inl x \<Rightarrow> Inl x
      | Inr st' \<Rightarrow> render_words cfg E fnt background_images avg rest st')"

subsection \<open>\<^verbatim>\<open>text_to_video\<close>\<close>

record run =
  outcome :: "py_exception + clip"  \<comment> \<open>the exception raised, or the clip written\<close>
  final :: world  \<comment> \<open>the file system when the function is left\<close>
  rendered :: "frame list"  \<comment> \<open>the list \<^verbatim>\<open>images\<close> when the function is left\<close>

text \<open>
  Lines 39 to 87 of \<^verbatim>\<open>src/app.py\<close> (50 to 99 of \<^verbatim>\<open>src/api/app.py\<close>).

  gTTS is a library, not code of the repository. Two of its checks decide what happens
  to a text without words and are part of the model: the constructor called on line 40
  asserts that the text is not empty, and \<^verbatim>\<open>tts.save\<close> on line 41, after it has opened
  the file for writing, asserts that something is left of the text once the whitespace
  around it is stripped. Whether any other text is synthesized and read back is the
  environment's to say.
\<close>

definition narrate_and_render ::
  "config \<Rightarrow> env \<Rightarrow> py_str \<Rightarrow> string \<times> nat \<Rightarrow> string list \<Rightarrow> string \<Rightarrow> world \<Rightarrow> run" where
  "narrate_and_render cfg E text fnt background_images outputfile w =
     (let words = split_text text in
      if text = [] then \<lparr>outcome = Inl AssertionError, final = w, rendered = []\<rparr>
      else if list_all is_space text
      then \<lparr>outcome = Inl AssertionError,
            final = w\<lparr>temp_mp3 := gtts_leftover E text (temp_mp3 w)\<rparr>,
            rendered = []\<rparr>
      else
      case gtts_save E text of
        None \<Rightarrow>
          \<lparr>outcome = Inl NarrationError,
           final = w\<lparr>temp_mp3 := gtts_leftover E text (temp_mp3 w)\<rparr>,
           rendered = []\<rparr>
      | Some ms \<Rightarrow>
          let w1 = w\<lparr>temp_mp3 := Some ms\<rparr>;
              full_audio_duration = real ms / 1000
          in
          if length words = 0
          then \<lparr>outcome = Inl ZeroDivisionError, final = w1, rendered = []\<rparr>
          else
            let avg_word_duration = full_audio_duration / real (length words) in
            case BACKGROUND_INTERVALS cfg of
              [] \<Rightarrow> \<lparr>outcome = Inl IndexError, final = w1, rendered = []\<rparr>
            | t0 # _ \<Rightarrow>
                (case render_words cfg E fnt background_images avg_word_duration words
                        \<lparr>sch = \<lparr>current_background_index = 0,
                                background_change_time = t0,
                                image_duration = 0\<rparr>,
                         images = [], durations = []\<rparr> of
                   Inl (e, st) \<Rightarrow> \<lparr>outcome = Inl e, final = w1, rendered = images st\<rparr>
                 | Inr st \<Rightarrow>
                     let c = \<lparr>clip_images = images st,
                              clip_durations = durations st,
                              clip_audio = ms,
                              clip_fps = TEXT_SPEED cfg\<rparr>
                     in
                     if \<not> audio_file_clip_ok E
                     then \<lparr>outcome = Inl AudioFileClipError, final = w1,
                           rendered = images st\<rparr>
                     else if \<not> image_sequence_clip_ok E (images st)
                     then \<lparr>outcome = Inl ImageSequenceClipError, final = w1,
                           rendered = images st\<rparr>
                     else if \<not> write_videofile_ok E outputfile
                     then \<lparr>outcome = Inl WriteVideoError, final = w1, rendered = images st\<rparr>
                     else
                       let w2 = w1\<lparr>videos := (outputfile, c) # videos w1\<rparr>;
                           w3 = w2\<lparr>temp_mp3 := None\<rparr>
                       in \<lparr>outcome = Inr c, final = w3, rendered = images st\<rparr>))"

text \<open>\<^verbatim>\<open>src/app.py\<close>, lines 32 to 87.\<close>

definition text_to_video ::
  "config \<Rightarrow> env \<Rightarrow> py_str \<Rightarrow> string \<Rightarrow> string list \<Rightarrow> string \<Rightarrow> world \<Rightarrow> run" where
  "text_to_video cfg E text font_path background_images outputfile w =
     (case truetype E font_path (FONT_SIZE cfg) of
        Inl e \<Rightarrow> \<lparr>outcome = Inl e, final = w, rendered = []\<rparr>
      | Inr fnt \<Rightarrow> narrate_and_render cfg E text fnt background_images outputfile w)"

text \<open>\<^verbatim>\<open>src/api/app.py\<close>, lines 38 to 99.\<close>

definition text_to_video_api ::
  "config \<Rightarrow> env \<Rightarrow> py_str \<Rightarrow> string \<Rightarrow> string list \<Rightarrow> string \<Rightarrow> world \<Rightarrow> run" where
  "text_to_video_api cfg E text font_path background_images outputfile w =
     (if \<not> path_exists E font_path
      then \<lparr>outcome = Inl (FileNotFoundError font_path), final = w, rendered = []\<rparr>
      else
        case truetype E font_path (FONT_SIZE cfg) of
          Inl e \<Rightarrow> \<lparr>outcome = Inl e, final = w, rendered = []\<rparr>
        | Inr fnt \<Rightarrow> narrate_and_render cfg E text fnt background_images outputfile w)"

subsection \<open>The durations under rounding\<close>

text \<open>
  Lines 45, 46 and 75 once more, with the rounding of the two divisions written out as a
  function \<open>fl\<close> from the exact quotient to the float that Python stores: the list
  \<^verbatim>\<open>durations\<close> after \<open>n\<close> words of an audio file of \<open>ms\<close> milliseconds. The pipeline
  above is the case where \<open>fl\<close> changes nothing.
\<close>

definition rounded_durations :: "(real \<Rightarrow> real) \<Rightarrow> nat \<Rightarrow> nat \<Rightarrow> real list" where
  "rounded_durations fl ms n =
     (let full_audio_duration = fl (real ms / 1000);
          avg_word_duration = fl (full_audio_duration / real n)
      in replicate n avg_word_duration)"

subsection \<open>Sample inputs\<close>

text \<open>
  An environment in which every library call succeeds, except that the path
  \<^verbatim>\<open>missing.ttf\<close> does not exist, \<^verbatim>\<open>broken.ttf\<close> is not a font and
  \<^verbatim>\<open>readonly.mp4\<close> cannot be written; a text with something to speak gives \<open>ms\<close>
  milliseconds of audio. A file system without files.
\<close>

definition sample_env :: "nat \<Rightarrow> env" where
  "sample_env ms =
     \<lparr>path_exists = (\<lambda>p. p \<noteq> ''missing.ttf''),
      font_parses = (\<lambda>p n. p \<noteq> ''broken.ttf''),
      getbbox = (\<lambda>p n word. (0, 0, 100 * int (length word), 180)),
      gtts_save = (\<lambda>t. Some ms),
      gtts_leftover = (\<lambda>t old. old),
      image_open_ok = (\<lambda>p. True),
      audio_file_clip_ok = True,
      image_sequence_clip_ok = (\<lambda>fs. True),
      write_videofile_ok = (\<lambda>p. p \<noteq> ''readonly.mp4'')\<rparr>"

definition empty_world :: world where
  "empty_world = \<lparr>temp_mp3 = None, videos = []\<rparr>"

section \<open>Properties\<close>

subsection \<open>Evaluation rules\<close>

lemma default_config_simps:
  "TEXT_SPEED default_config = 24"
  "TEXT_COLOR default_config = (0, 0, 0)"
  "FONT_SIZE default_config = 180"
  "VIDEO_SIZE default_config = (1080, 1920)"
  "BACKGROUND_INTERVALS default_config = [10, 22, 35]"
  by (simp_all add: default_config_def)

lemma sample_env_simps:
  "path_exists (sample_env ms) p = (p \<noteq> ''missing.ttf'')"
  "font_parses (sample_env ms) p n = (p \<noteq> ''broken.ttf'')"
  "getbbox (sample_env ms) p n word = (0, 0, 100 * int (length word), 180)"
  "gtts_save (sample_env ms) t = Some ms"
  "gtts_leftover (sample_env ms) t old = old"
  "image_open_ok (sample_env ms) p = True"
  "audio_file_clip_ok (sample_env ms) = True"
  "image_sequence_clip_ok (sample_env ms) fs = True"
  "write_videofile_ok (sample_env ms) p = (p \<noteq> ''readonly.mp4'')"
  by (simp_all add: sample_env_def)

lemmas run_simps =
  text_to_video_def text_to_video_api_def truetype_def narrate_and_render_def split_text_def
  is_space_def render_word_def draw_word_def change_background_def Let_def ascii_def
  default_config_simps sample_env_simps empty_world_def

subsection \<open>Words\<close>

text \<open>A text has no word exactly when it is empty or consists of whitespace.\<close>

lemma split_from_Nil_iff:
  "split_from cur cs = [] \<longleftrightarrow> cur = [] \<and> list_all is_space cs"
  by (induction cs arbitrary: cur) auto

lemma split_text_Nil_iff: "split_text text = [] \<longleftrightarrow> list_all is_space text"
  by (simp add: split_text_def split_from_Nil_iff)

lemma words_text:
  assumes "split_text text \<noteq> []"
  shows "text \<noteq> []" and "\<not> list_all is_space text"
  using assms by (auto simp: split_text_Nil_iff)

subsection \<open>Frames and durations of a successful run\<close>

lemma render_word_Inr:
  assumes "render_word cfg E fnt bgs avg word st = Inr st'"
  shows "map frame_word (images st') = map frame_word (images st) @ [word]"
    and "durations st' = durations st @ [avg]"
  using assms
  by (auto simp: render_word_def draw_word_def Let_def split: sum.splits if_splits prod.splits)

lemma render_words_Inr:
  assumes "render_words cfg E fnt bgs avg ws st = Inr st'"
  shows "map frame_word (images st') = map frame_word (images st) @ ws
         \<and> durations st' = durations st @ replicate (length ws) avg"
  using assms
proof (induction ws arbitrary: st)
  case Nil
  then show ?case by simp
next
  case (Cons word rest)
  from Cons.prems obtain st1 where
    one: "render_word cfg E fnt bgs avg word st = Inr st1" and
    more: "render_words cfg E fnt bgs avg rest st1 = Inr st'"
    by (auto split: sum.splits)
  from Cons.IH [OF more] render_word_Inr [OF one] show ?case
    by (simp add: replicate_append_same)
qed

lemma narrate_and_render_Inr:
  assumes "outcome (narrate_and_render cfg E text fnt bgs out w) = Inr c"
  shows "\<exists>ms. gtts_save E text = Some ms \<and> split_text text \<noteq> []
           \<and> map frame_word (clip_images c) = split_text text
           \<and> clip_durations c
               = replicate (length (split_text text)) (real ms / 1000 / real (length (split_text text)))
           \<and> clip_audio c = ms"
  using assms
  by (auto simp: narrate_and_render_def Let_def dest!: render_words_Inr
           split: option.splits if_splits list.splits sum.splits prod.splits)

lemma text_to_video_Inr:
  assumes "outcome (text_to_video cfg E text font_path bgs out w) = Inr c"
  shows "\<exists>fnt. outcome (narrate_and_render cfg E text fnt bgs out w) = Inr c"
  using assms by (auto simp: text_to_video_def split: sum.splits)

lemma text_to_video_api_Inr:
  assumes "outcome (text_to_video_api cfg E text font_path bgs out w) = Inr c"
  shows "\<exists>fnt. outcome (narrate_and_render cfg E text fnt bgs out w) = Inr c"
  using assms by (auto simp: text_to_video_api_def split: sum.splits if_splits)

text \<open>
  The loop cannot raise when there is an image to show and every image opens: the index
  stays below the number of images.
\<close>

lemma change_background_index:
  assumes "current_background_index s < n"
  shows "\<exists>s'. change_background cfg n s = Inr s' \<and> current_background_index s' < n"
  using assms by (auto simp: change_background_def Let_def)

lemma render_word_succeeds:
  assumes "current_background_index (sch st) < length bgs"
    and "list_all (image_open_ok E) bgs"
  shows "\<exists>st'. render_word cfg E fnt bgs avg word st = Inr st'
           \<and> current_background_index (sch st') < length bgs"
proof -
  from change_background_index [OF assms(1), of cfg] obtain s where
    check: "change_background cfg (length bgs) (sch st) = Inr s" and
    index: "current_background_index s < length bgs"
    by blast
  from index assms(2) have "image_open_ok E (bgs ! current_background_index s)"
    by (simp add: list_all_length)
  with check index show ?thesis
    by (simp add: render_word_def)
qed

lemma render_words_succeeds:
  assumes "current_background_index (sch st) < length bgs"
    and "list_all (image_open_ok E) bgs"
  shows "\<exists>st'. render_words cfg E fnt bgs avg ws st = Inr st'"
  using assms(1)
proof (induction ws arbitrary: st)
  case Nil
  then show ?case by simp
next
  case (Cons word rest)
  from render_word_succeeds [OF Cons.prems assms(2), of cfg fnt avg word] obtain st1 where
    one: "render_word cfg E fnt bgs avg word st = Inr st1" and
    index: "current_background_index (sch st1) < length bgs"
    by blast
  from Cons.IH [OF index] one show ?case
    by simp
qed

lemma narrate_and_render_succeeds:
  assumes "gtts_save E text = Some ms" and "split_text text \<noteq> []"
    and "BACKGROUND_INTERVALS cfg \<noteq> []" and "bgs \<noteq> []"
    and "list_all (image_open_ok E) bgs"
    and "audio_file_clip_ok E" and "\<forall>fs. image_sequence_clip_ok E fs"
    and "write_videofile_ok E out"
  shows "\<exists>c. outcome (narrate_and_render cfg E text fnt bgs out w) = Inr c"
proof -
  from assms(3) obtain t0 ts where ivs: "BACKGROUND_INTERVALS cfg = t0 # ts"
    by (cases "BACKGROUND_INTERVALS cfg") auto
  let ?st0 = "\<lparr>sch = \<lparr>current_background_index = 0, background_change_time = t0,
                          image_duration = 0\<rparr>,
               images = [], durations = []\<rparr>"
  from assms(4) have "current_background_index (sch ?st0) < length bgs"
    by simp
  from render_words_succeeds [OF this assms(5)] obtain st where
    "render_words cfg E fnt bgs (real ms / 1000 / real (length (split_text text)))
       (split_text text) ?st0 = Inr st"
    by blast
  with assms(1,2,6,7,8) ivs words_text [OF assms(2)] show ?thesis
    by (simp add: narrate_and_render_def Let_def)
qed

lemma pipelines_succeed:
  assumes "path_exists E font_path" and "font_parses E font_path (FONT_SIZE cfg)"
    and "gtts_save E text = Some ms" and "split_text text \<noteq> []"
    and "BACKGROUND_INTERVALS cfg \<noteq> []" and "bgs \<noteq> []"
    and "list_all (image_open_ok E) bgs"
    and "audio_file_clip_ok E" and "\<forall>fs. image_sequence_clip_ok E fs"
    and "write_videofile_ok E out"
  shows "\<exists>c. outcome (text_to_video cfg E text font_path bgs out w) = Inr c
           \<and> outcome (text_to_video_api cfg E text font_path bgs out w) = Inr c"
proof -
  from narrate_and_render_succeeds [OF assms(3-10)] obtain c where
    "outcome (narrate_and_render cfg E text (font_path, FONT_SIZE cfg) bgs out w) = Inr c"
    by blast
  with assms(1,2) show ?thesis
    by (simp add: text_to_video_def text_to_video_api_def truetype_def)
qed

text \<open>
  C5: the pipeline produces exactly one frame per word, in the order of the words, and
  one duration per word. When the font loads, the speech of a text with at least one
  word is synthesized, there is an interval and an image, every image opens, the clips
  are built and the video is written, both source files return a clip; and every clip
  that either of them returns has the words of the text as the words of its frames.
\<close>

theorem one_frame_per_word:
  "(path_exists E font_path \<and> font_parses E font_path (FONT_SIZE cfg)
      \<and> gtts_save E text = Some ms \<and> split_text text \<noteq> []
      \<and> BACKGROUND_INTERVALS cfg \<noteq> [] \<and> bgs \<noteq> []
      \<and> list_all (image_open_ok E) bgs
      \<and> audio_file_clip_ok E \<and> (\<forall>fs. image_sequence_clip_ok E fs)
      \<and> write_videofile_ok E out
    \<longrightarrow> (\<exists>c. outcome (text_to_video cfg E text font_path bgs out w) = Inr c
           \<and> outcome (text_to_video_api cfg E text font_path bgs out w) = Inr c))
   \<and> (\<forall>c. outcome (text_to_video cfg E text font_path bgs out w) = Inr c
            \<or> outcome (text_to_video_api cfg E text font_path bgs out w) = Inr c
          \<longrightarrow> length (clip_images c) = length (split_text text)
              \<and> map frame_word (clip_images c) = split_text text
              \<and> length (clip_durations c) = length (split_text text))"
proof (intro conjI impI allI)
  assume "path_exists E font_path \<and> font_parses E font_path (FONT_SIZE cfg)
      \<and> gtts_save E text = Some ms \<and> split_text text \<noteq> []
      \<and> BACKGROUND_INTERVALS cfg \<noteq> [] \<and> bgs \<noteq> []
      \<and> list_all (image_open_ok E) bgs
      \<and> audio_file_clip_ok E \<and> (\<forall>fs. image_sequence_clip_ok E fs)
      \<and> write_videofile_ok E out"
  then show "\<exists>c. outcome (text_to_video cfg E text font_path bgs out w) = Inr c
           \<and> outcome (text_to_video_api cfg E text font_path bgs out w) = Inr c"
    by (intro pipelines_succeed) simp_all
next
  fix c
  assume returned: "outcome (text_to_video cfg E text font_path bgs out w) = Inr c
            \<or> outcome (text_to_video_api cfg E text font_path bgs out w) = Inr c"
  then obtain fnt where "outcome (narrate_and_render cfg E text fnt bgs out w) = Inr c"
    using text_to_video_Inr text_to_video_api_Inr by blast
  from narrate_and_render_Inr [OF this] obtain d where
    words: "map frame_word (clip_images c) = split_text text" and
    durs: "clip_durations c
             = replicate (length (split_text text)) (real d / 1000 / real (length (split_text text)))"
    by blast
  from words have len: "length (clip_images c) = length (split_text text)"
    by (metis length_map)
  from len show "length (clip_images c) = length (split_text text)" .
  from words show "map frame_word (clip_images c) = split_text text" .
  from durs show "length (clip_durations c) = length (split_text text)" by simp
qed

theorem one_frame_per_word_witness:
  "outcome (text_to_video default_config (sample_env 6000) (ascii ''one two three'') ''font.ttf''
              [''a.png''] ''out.mp4'' empty_world)
     = Inr \<lparr>clip_images =
               [\<lparr>frame_word = ascii ''one'', frame_background = ''a.png'',
                 frame_position = (390, 870), frame_fill = (0, 0, 0)\<rparr>,
                \<lparr>frame_word = ascii ''two'', frame_background = ''a.png'',
                 frame_position = (390, 870), frame_fill = (0, 0, 0)\<rparr>,
                \<lparr>frame_word = ascii ''three'', frame_background = ''a.png'',
                 frame_position = (290, 870), frame_fill = (0, 0, 0)\<rparr>],
             clip_durations = [2, 2, 2], clip_audio = 6000, clip_fps = 24\<rparr>
   \<and> outcome (text_to_video_api default_config (sample_env 6000) (ascii ''one two three'')
              ''font.ttf'' [''a.png''] ''out.mp4'' empty_world)
     = Inr \<lparr>clip_images =
               [\<lparr>frame_word = ascii ''one'', frame_background = ''a.png'',
                 frame_position = (390, 870), frame_fill = (0, 0, 0)\<rparr>,
                \<lparr>frame_word = ascii ''two'', frame_background = ''a.png'',
                 frame_position = (390, 870), frame_fill = (0, 0, 0)\<rparr>,
                \<lparr>frame_word = ascii ''three'', frame_background = ''a.png'',
                 frame_position = (290, 870), frame_fill = (0, 0, 0)\<rparr>],
             clip_durations = [2, 2, 2], clip_audio = 6000, clip_fps = 24\<rparr>
   \<and> split_text (ascii ''one two three'') = [ascii ''one'', ascii ''two'', ascii ''three'']
   \<and> [] \<noteq> [''a.png''] \<and> list_all (image_open_ok (sample_env 6000)) [''a.png'']"
proof -
  have run: "outcome (text_to_video default_config (sample_env 6000) (ascii ''one two three'')
              ''font.ttf'' [''a.png''] ''out.mp4'' empty_world)
     = Inr \<lparr>clip_images =
               [\<lparr>frame_word = ascii ''one'', frame_background = ''a.png'',
                 frame_position = (390, 870), frame_fill = (0, 0, 0)\<rparr>,
                \<lparr>frame_word = ascii ''two'', frame_background = ''a.png'',
                 frame_position = (390, 870), frame_fill = (0, 0, 0)\<rparr>,
                \<lparr>frame_word = ascii ''three'', frame_background = ''a.png'',
                 frame_position = (290, 870), frame_fill = (0, 0, 0)\<rparr>],
             clip_durations = [2, 2, 2], clip_audio = 6000, clip_fps = 24\<rparr>"
    by (simp add: run_simps)
  have conds: "path_exists (sample_env 6000) ''font.ttf''
      \<and> font_parses (sample_env 6000) ''font.ttf'' (FONT_SIZE default_config)
      \<and> gtts_save (sample_env 6000) (ascii ''one two three'') = Some 6000
      \<and> split_text (ascii ''one two three'') \<noteq> []
      \<and> BACKGROUND_INTERVALS default_config \<noteq> [] \<and> [''a.png''] \<noteq> []
      \<and> list_all (image_open_ok (sample_env 6000)) [''a.png'']
      \<and> audio_file_clip_ok (sample_env 6000)
      \<and> (\<forall>fs. image_sequence_clip_ok (sample_env 6000) fs)
      \<and> write_videofile_ok (sample_env 6000) ''out.mp4''"
    by (simp add: sample_env_simps default_config_simps split_text_def is_space_def ascii_def)
  from one_frame_per_word [of "sample_env 6000" "''font.ttf''" default_config
      "ascii ''one two three''" 6000 "[''a.png'']" "''out.mp4''" empty_world] conds
  have both: "\<exists>c. outcome (text_to_video default_config (sample_env 6000)
                  (ascii ''one two three'') ''font.ttf'' [''a.png''] ''out.mp4'' empty_world) = Inr c
           \<and> outcome (text_to_video_api default_config (sample_env 6000)
                  (ascii ''one two three'') ''font.ttf'' [''a.png''] ''out.mp4'' empty_world) = Inr c"
    by blast
  with run have api: "outcome (text_to_video_api default_config (sample_env 6000)
              (ascii ''one two three'') ''font.ttf'' [''a.png''] ''out.mp4'' empty_world)
     = Inr \<lparr>clip_images =
               [\<lparr>frame_word = ascii ''one'', frame_background = ''a.png'',
                 frame_position = (390, 870), frame_fill = (0, 0, 0)\<rparr>,
                \<lparr>frame_word = ascii ''two'', frame_background = ''a.png'',
                 frame_position = (390, 870), frame_fill = (0, 0, 0)\<rparr>,
                \<lparr>frame_word = ascii ''three'', frame_background = ''a.png'',
                 frame_position = (290, 870), frame_fill = (0, 0, 0)\<rparr>],
             clip_durations = [2, 2, 2], clip_audio = 6000, clip_fps = 24\<rparr>"
    by auto
  have "split_text (ascii ''one two three'') = [ascii ''one'', ascii ''two'', ascii ''three'']"
    by (simp add: split_text_def is_space_def ascii_def)
  with run api conds show ?thesis by simp
qed

text \<open>
  C4: every word receives the narration length divided by the number of words, so the
  durations of a clip add up to the narration length; the difference is below any
  tolerance. Both source files return such a clip under the conditions named for C5.
  The last part is about rounding: when the division by the number of words is rounded
  with a relative error of at most \<open>1 / 2 ^ 53\<close>, as it is to a double, and the measured
  narration is not longer than \<open>10 ^ 9\<close> seconds, the stored durations add up to the
  measured narration within \<open>1 / 10 ^ 6\<close>. The sum is the exact sum of the stored values.
\<close>

theorem durations_sum_to_narration:
  "(path_exists E font_path \<and> font_parses E font_path (FONT_SIZE cfg)
      \<and> gtts_save E text = Some ms \<and> split_text text \<noteq> []
      \<and> BACKGROUND_INTERVALS cfg \<noteq> [] \<and> bgs \<noteq> []
      \<and> list_all (image_open_ok E) bgs
      \<and> audio_file_clip_ok E \<and> (\<forall>fs. image_sequence_clip_ok E fs)
      \<and> write_videofile_ok E out
    \<longrightarrow> (\<exists>c. outcome (text_to_video cfg E text font_path bgs out w) = Inr c
           \<and> outcome (text_to_video_api cfg E text font_path bgs out w) = Inr c))
   \<and> (\<forall>c. outcome (text_to_video cfg E text font_path bgs out w) = Inr c
            \<or> outcome (text_to_video_api cfg E text font_path bgs out w) = Inr c
          \<longrightarrow> (\<exists>d. gtts_save E text = Some d
                 \<and> clip_durations c
                     = rounded_durations (\<lambda>x. x) d (length (split_text text))
                 \<and> set (clip_durations c) = {real d / 1000 / real (length (split_text text))}
                 \<and> \<bar>sum_list (clip_durations c) - real d / 1000\<bar> \<le> 1 / 10 ^ 6))
   \<and> (\<forall>fl d n. 0 < n
            \<and> \<bar>fl (fl (real d / 1000) / real n) - fl (real d / 1000) / real n\<bar>
                  \<le> \<bar>fl (real d / 1000) / real n\<bar> / 2 ^ 53
            \<and> \<bar>fl (real d / 1000)\<bar> \<le> 10 ^ 9
          \<longrightarrow> \<bar>sum_list (rounded_durations fl d n) - fl (real d / 1000)\<bar> \<le> 1 / 10 ^ 6)"
proof (intro conjI impI allI)
  assume "path_exists E font_path \<and> font_parses E font_path (FONT_SIZE cfg)
      \<and> gtts_save E text = Some ms \<and> split_text text \<noteq> []
      \<and> BACKGROUND_INTERVALS cfg \<noteq> [] \<and> bgs \<noteq> []
      \<and> list_all (image_open_ok E) bgs
      \<and> audio_file_clip_ok E \<and> (\<forall>fs. image_sequence_clip_ok E fs)
      \<and> write_videofile_ok E out"
  then show "\<exists>c. outcome (text_to_video cfg E text font_path bgs out w) = Inr c
           \<and> outcome (text_to_video_api cfg E text font_path bgs out w) = Inr c"
    by (intro pipelines_succeed) simp_all
next
  fix c
  assume "outcome (text_to_video cfg E text font_path bgs out w) = Inr c
            \<or> outcome (text_to_video_api cfg E text font_path bgs out w) = Inr c"
  then obtain fnt where "outcome (narrate_and_render cfg E text fnt bgs out w) = Inr c"
    using text_to_video_Inr text_to_video_api_Inr by blast
  from narrate_and_render_Inr [OF this] obtain d where
    tts: "gtts_save E text = Some d" and words: "split_text text \<noteq> []" and
    durs: "clip_durations c
             = replicate (length (split_text text)) (real d / 1000 / real (length (split_text text)))"
    by blast
  from durs have rounded:
    "clip_durations c = rounded_durations (\<lambda>x. x) d (length (split_text text))"
    by (simp add: rounded_durations_def)
  from words durs have total: "sum_list (clip_durations c) = real d / 1000"
    by (simp add: sum_list_replicate)
  from words durs
  have same: "set (clip_durations c) = {real d / 1000 / real (length (split_text text))}"
    by simp
  from tts rounded same total
  show "\<exists>d. gtts_save E text = Some d
          \<and> clip_durations c = rounded_durations (\<lambda>x. x) d (length (split_text text))
          \<and> set (clip_durations c) = {real d / 1000 / real (length (split_text text))}
          \<and> \<bar>sum_list (clip_durations c) - real d / 1000\<bar> \<le> 1 / 10 ^ 6"
    by simp
next
  fix fl :: "real \<Rightarrow> real" and d n :: nat
  assume h: "0 < n
      \<and> \<bar>fl (fl (real d / 1000) / real n) - fl (real d / 1000) / real n\<bar>
            \<le> \<bar>fl (real d / 1000) / real n\<bar> / 2 ^ 53
      \<and> \<bar>fl (real d / 1000)\<bar> \<le> 10 ^ 9"
  define D where "D = fl (real d / 1000)"
  define a where "a = fl (D / real n)"
  from h have n: "0 < real n" and err: "\<bar>a - D / real n\<bar> \<le> \<bar>D / real n\<bar> / 2 ^ 53"
    and long: "\<bar>D\<bar> \<le> 10 ^ 9"
    by (simp_all add: D_def a_def)
  have "sum_list (rounded_durations fl d n) - D = real n * (a - D / real n)"
    using n by (simp add: rounded_durations_def sum_list_replicate D_def a_def algebra_simps)
  then have "\<bar>sum_list (rounded_durations fl d n) - D\<bar> = real n * \<bar>a - D / real n\<bar>"
    by (simp add: abs_mult)
  also have "\<dots> \<le> real n * (\<bar>D / real n\<bar> / 2 ^ 53)"
    by (rule mult_left_mono [OF err]) (use n in simp)
  also have "\<dots> = \<bar>D\<bar> / 2 ^ 53"
    using n by (simp add: abs_divide)
  also have "\<dots> \<le> 10 ^ 9 / 2 ^ 53"
    using long by (simp add: divide_right_mono)
  also have "\<dots> \<le> (1 / 10 ^ 6 :: real)"
    by simp
  finally show "\<bar>sum_list (rounded_durations fl d n) - fl (real d / 1000)\<bar> \<le> 1 / 10 ^ 6"
    by (simp add: D_def)
qed

theorem durations_sum_to_narration_witness:
  "outcome (text_to_video default_config (sample_env 6000) (ascii ''one two three'') ''font.ttf''
              [''a.png''] ''out.mp4'' empty_world)
     = outcome (text_to_video_api default_config (sample_env 6000) (ascii ''one two three'')
              ''font.ttf'' [''a.png''] ''out.mp4'' empty_world)
   \<and> map clip_durations
         [projr (outcome (text_to_video default_config (sample_env 6000)
            (ascii ''one two three'') ''font.ttf'' [''a.png''] ''out.mp4'' empty_world))]
     = [[2, 2, 2]]
   \<and> \<bar>sum_list [2, 2, 2] - real 6000 / 1000\<bar> \<le> 1 / 10 ^ 6
   \<and> rounded_durations (\<lambda>x. x * (1 + 1 / 2 ^ 53)) 6000 3
     = [2 * (1 + 1 / 2 ^ 53) * (1 + 1 / 2 ^ 53), 2 * (1 + 1 / 2 ^ 53) * (1 + 1 / 2 ^ 53),
        2 * (1 + 1 / 2 ^ 53) * (1 + 1 / 2 ^ 53)]
   \<and> \<bar>sum_list (rounded_durations (\<lambda>x. x * (1 + 1 / 2 ^ 53)) 6000 3)
         - real 6000 / 1000 * (1 + 1 / 2 ^ 53)\<bar> \<le> 1 / 10 ^ 6"
proof -
  have run: "outcome (text_to_video default_config (sample_env 6000) (ascii ''one two three'')
              ''font.ttf'' [''a.png''] ''out.mp4'' empty_world)
     = Inr \<lparr>clip_images =
               [\<lparr>frame_word = ascii ''one'', frame_background = ''a.png'',
                 frame_position = (390, 870), frame_fill = (0, 0, 0)\<rparr>,
                \<lparr>frame_word = ascii ''two'', frame_background = ''a.png'',
                 frame_position = (390, 870), frame_fill = (0, 0, 0)\<rparr>,
                \<lparr>frame_word = ascii ''three'', frame_background = ''a.png'',
                 frame_position = (290, 870), frame_fill = (0, 0, 0)\<rparr>],
             clip_durations = [2, 2, 2], clip_audio = 6000, clip_fps = 24\<rparr>"
    and api: "outcome (text_to_video_api default_config (sample_env 6000)
              (ascii ''one two three'') ''font.ttf'' [''a.png''] ''out.mp4'' empty_world)
     = Inr \<lparr>clip_images =
               [\<lparr>frame_word = ascii ''one'', frame_background = ''a.png'',
                 frame_position = (390, 870), frame_fill = (0, 0, 0)\<rparr>,
                \<lparr>frame_word = ascii ''two'', frame_background = ''a.png'',
                 frame_position = (390, 870), frame_fill = (0, 0, 0)\<rparr>,
                \<lparr>frame_word = ascii ''three'', frame_background = ''a.png'',
                 frame_position = (290, 870), frame_fill = (0, 0, 0)\<rparr>],
             clip_durations = [2, 2, 2], clip_audio = 6000, clip_fps = 24\<rparr>"
    by (simp_all add: run_simps)
  let ?fl = "\<lambda>x::real. x * (1 + 1 / 2 ^ 53)"
  have hyp: "(0::nat) < 3
      \<and> \<bar>?fl (?fl (real 6000 / 1000) / real 3) - ?fl (real 6000 / 1000) / real 3\<bar>
            \<le> \<bar>?fl (real 6000 / 1000) / real 3\<bar> / 2 ^ 53
      \<and> \<bar>?fl (real 6000 / 1000)\<bar> \<le> 10 ^ 9"
    by simp
  from durations_sum_to_narration [of "sample_env 6000" "''font.ttf''" default_config
      "ascii ''one two three''" 6000 "[''a.png'']" "''out.mp4''" empty_world]
  have rounding: "\<forall>fl d n. 0 < n
            \<and> \<bar>fl (fl (real d / 1000) / real n) - fl (real d / 1000) / real n\<bar>
                  \<le> \<bar>fl (real d / 1000) / real n\<bar> / 2 ^ 53
            \<and> \<bar>fl (real d / 1000)\<bar> \<le> 10 ^ 9
          \<longrightarrow> \<bar>sum_list (rounded_durations fl d n) - fl (real d / 1000)\<bar> \<le> 1 / 10 ^ 6"
    by blast
  have bound: "\<bar>sum_list (rounded_durations ?fl 6000 3) - ?fl (real 6000 / 1000)\<bar>
                \<le> 1 / 10 ^ 6"
    by (rule rounding [rule_format, of 3 ?fl 6000]) (rule hyp)
  have list: "rounded_durations ?fl 6000 3
     = [2 * (1 + 1 / 2 ^ 53) * (1 + 1 / 2 ^ 53), 2 * (1 + 1 / 2 ^ 53) * (1 + 1 / 2 ^ 53),
        2 * (1 + 1 / 2 ^ 53) * (1 + 1 / 2 ^ 53)]"
    by (simp add: rounded_durations_def Let_def numeral_3_eq_3)
  from run api bound list show ?thesis
    by simp
qed

subsection \<open>The constant \<^verbatim>\<open>TIMING_ADJUSTMENT\<close>\<close>

lemma change_background_cfg:
  "change_background (cfg\<lparr>TIMING_ADJUSTMENT := a\<rparr>) n s = change_background cfg n s"
  by (simp add: change_background_def Let_def)

lemma draw_word_cfg:
  "draw_word (cfg\<lparr>TIMING_ADJUSTMENT := a\<rparr>) E fnt bg word = draw_word cfg E fnt bg word"
  by (simp add: draw_word_def)

lemma render_word_cfg:
  "render_word (cfg\<lparr>TIMING_ADJUSTMENT := a\<rparr>) E fnt bgs avg word st
     = render_word cfg E fnt bgs avg word st"
  by (simp add: render_word_def change_background_cfg draw_word_cfg Let_def split: sum.split)

lemma render_words_cfg:
  "render_words (cfg\<lparr>TIMING_ADJUSTMENT := a\<rparr>) E fnt bgs avg ws st
     = render_words cfg E fnt bgs avg ws st"
  by (induction ws arbitrary: st) (simp_all add: render_word_cfg split: sum.split)

lemma narrate_and_render_cfg:
  "narrate_and_render (cfg\<lparr>TIMING_ADJUSTMENT := a\<rparr>) E text fnt bgs out w
     = narrate_and_render cfg E text fnt bgs out w"
  by (simp add: narrate_and_render_def render_words_cfg Let_def
        split: option.split list.split sum.split)

text \<open>
  C9: the run does not depend on \<^verbatim>\<open>TIMING_ADJUSTMENT\<close>. Two configurations that differ
  in this constant only give the same outcome (frames, durations, clip), the same file
  system and the same rendered frames, for every input and in both source files.
\<close>

theorem timing_adjustment_unused:
  "text_to_video (cfg\<lparr>TIMING_ADJUSTMENT := a\<rparr>) E text font_path bgs out w
     = text_to_video cfg E text font_path bgs out w
   \<and> text_to_video_api (cfg\<lparr>TIMING_ADJUSTMENT := a\<rparr>) E text font_path bgs out w
     = text_to_video_api cfg E text font_path bgs out w"
  by (simp add: text_to_video_def text_to_video_api_def narrate_and_render_cfg split: sum.split)

theorem timing_adjustment_unused_witness:
  "text_to_video (default_config\<lparr>TIMING_ADJUSTMENT := 0\<rparr>) (sample_env 6000) (ascii ''one two three'')
       ''font.ttf'' [''a.png''] ''out.mp4'' empty_world
     = text_to_video default_config (sample_env 6000) (ascii ''one two three'')
       ''font.ttf'' [''a.png''] ''out.mp4'' empty_world
   \<and> TIMING_ADJUSTMENT (default_config\<lparr>TIMING_ADJUSTMENT := 0\<rparr>)
       \<noteq> TIMING_ADJUSTMENT default_config"
  using timing_adjustment_unused [of 0 default_config "sample_env 6000" "ascii ''one two three''"
      "''font.ttf''" "[''a.png'']" "''out.mp4''" empty_world]
  by (simp add: default_config_def)

subsection \<open>Failures\<close>

text \<open>
  C7: when the font file does not exist or cannot be parsed at the configured size, the
  pipeline raises the font loader's exception before anything else happens: no speech is
  synthesized, the file system is unchanged and no frame has been rendered. The exception
  is \<^verbatim>\<open>OSError\<close> from \<^verbatim>\<open>ImageFont.truetype\<close>, and in \<^verbatim>\<open>src/api/app.py\<close>
  \<^verbatim>\<open>FileNotFoundError\<close> when the file does not exist.
\<close>

theorem font_failure_up_front:
  assumes "\<not> path_exists E font_path \<or> \<not> font_parses E font_path (FONT_SIZE cfg)"
  shows "text_to_video cfg E text font_path bgs out w
           = \<lparr>outcome = Inl OSError, final = w, rendered = []\<rparr>
         \<and> text_to_video_api cfg E text font_path bgs out w
           = \<lparr>outcome = Inl (if path_exists E font_path then OSError
                                else FileNotFoundError font_path),
              final = w, rendered = []\<rparr>"
  using assms by (auto simp: text_to_video_def text_to_video_api_def truetype_def)

theorem font_failure_up_front_witness:
  "\<not> path_exists (sample_env 6000) ''missing.ttf''
   \<and> text_to_video default_config (sample_env 6000) (ascii ''one two three'') ''missing.ttf''
         [''a.png''] ''out.mp4'' empty_world
       = \<lparr>outcome = Inl OSError, final = empty_world, rendered = []\<rparr>
   \<and> text_to_video_api default_config (sample_env 6000) (ascii ''one two three'') ''missing.ttf''
         [''a.png''] ''out.mp4'' empty_world
       = \<lparr>outcome = Inl (FileNotFoundError ''missing.ttf''), final = empty_world,
          rendered = []\<rparr>
   \<and> \<not> font_parses (sample_env 6000) ''broken.ttf'' (FONT_SIZE default_config)
   \<and> text_to_video default_config (sample_env 6000) (ascii ''one two three'') ''broken.ttf''
         [''a.png''] ''out.mp4'' empty_world
       = \<lparr>outcome = Inl OSError, final = empty_world, rendered = []\<rparr>
   \<and> text_to_video_api default_config (sample_env 6000) (ascii ''one two three'') ''broken.ttf''
         [''a.png''] ''out.mp4'' empty_world
       = \<lparr>outcome = Inl OSError, final = empty_world, rendered = []\<rparr>"
proof -
  have missing: "\<not> path_exists (sample_env 6000) ''missing.ttf''"
    and broken: "\<not> font_parses (sample_env 6000) ''broken.ttf'' (FONT_SIZE default_config)"
    and there: "path_exists (sample_env 6000) ''broken.ttf''"
    by (simp_all add: sample_env_simps)
  from font_failure_up_front [OF disjI1, OF missing] font_failure_up_front [OF disjI2, OF broken]
    missing broken there
  show ?thesis by simp
qed

text \<open>
  C10: with at least one word, a font that loads, speech that is synthesized and a first
  interval that is positive, an empty list of background images makes the pipeline raise
  \<^verbatim>\<open>IndexError\<close> at the first word, before any frame is rendered. The modulo of
  line 56 is unguarded too: it raises \<^verbatim>\<open>ZeroDivisionError\<close> whenever the change time
  is reached with no image.
\<close>

theorem empty_backgrounds_index_error:
  assumes "split_text text \<noteq> []"
    and "path_exists E font_path" and "font_parses E font_path (FONT_SIZE cfg)"
    and "gtts_save E text = Some ms"
    and "BACKGROUND_INTERVALS cfg = t0 # ts" and "0 < t0"
  shows "text_to_video cfg E text font_path [] out w
           = \<lparr>outcome = Inl IndexError, final = w\<lparr>temp_mp3 := Some ms\<rparr>, rendered = []\<rparr>
         \<and> text_to_video_api cfg E text font_path [] out w
           = \<lparr>outcome = Inl IndexError, final = w\<lparr>temp_mp3 := Some ms\<rparr>, rendered = []\<rparr>
         \<and> (\<forall>s. of_int (background_change_time s) \<le> image_duration s
                \<longrightarrow> change_background cfg 0 s = Inl ZeroDivisionError)"
proof -
  from assms(1) obtain word rest where ws: "split_text text = word # rest"
    by (cases "split_text text") auto
  have "narrate_and_render cfg E text (font_path, FONT_SIZE cfg) [] out w
          = \<lparr>outcome = Inl IndexError, final = w\<lparr>temp_mp3 := Some ms\<rparr>, rendered = []\<rparr>"
    using assms(4-6) ws words_text [OF assms(1)]
    by (simp add: narrate_and_render_def render_word_def change_background_def)
  with assms(2,3) show ?thesis
    by (simp add: text_to_video_def text_to_video_api_def truetype_def change_background_def)
qed

theorem empty_backgrounds_index_error_witness:
  "split_text (ascii ''hello world'') \<noteq> []
   \<and> text_to_video default_config (sample_env 800) (ascii ''hello world'') ''font.ttf'' [] ''out.mp4'' empty_world
       = \<lparr>outcome = Inl IndexError, final = \<lparr>temp_mp3 = Some 800, videos = []\<rparr>, rendered = []\<rparr>
   \<and> text_to_video_api default_config (sample_env 800) (ascii ''hello world'') ''font.ttf'' [] ''out.mp4'' empty_world
       = \<lparr>outcome = Inl IndexError, final = \<lparr>temp_mp3 = Some 800, videos = []\<rparr>, rendered = []\<rparr>
   \<and> change_background default_config 0
         \<lparr>current_background_index = 0, background_change_time = 10, image_duration = 10\<rparr>
       = Inl ZeroDivisionError"
proof -
  have words: "split_text (ascii ''hello world'') \<noteq> []"
    by (simp add: split_text_def is_space_def ascii_def)
  have font: "path_exists (sample_env 800) ''font.ttf''" "font_parses (sample_env 800) ''font.ttf'' (FONT_SIZE default_config)"
    by (simp_all add: sample_env_simps)
  have tts: "gtts_save (sample_env 800) (ascii ''hello world'') = Some 800"
    by (simp add: sample_env_simps)
  have ivs: "BACKGROUND_INTERVALS default_config = 10 # [22, 35]" "(0::int) < 10"
    by (simp_all add: default_config_simps)
  from empty_backgrounds_index_error [OF words font tts ivs, of "''out.mp4''" empty_world] words
  show ?thesis by (simp add: empty_world_def)
qed

lemma no_words_run:
  assumes "split_text text = []"
  shows "narrate_and_render cfg E text fnt bgs out w
           = \<lparr>outcome = Inl AssertionError,
              final = (if text = [] then w
                       else w\<lparr>temp_mp3 := gtts_leftover E text (temp_mp3 w)\<rparr>),
              rendered = []\<rparr>"
  using assms by (simp add: narrate_and_render_def split_text_Nil_iff)

text \<open>
  C3: a text without words, empty or of whitespace only, makes the pipeline fail before
  anything is measured or divided: when the font loads, the synthesizer rejects the text
  with its \<^verbatim>\<open>AssertionError\<close>, on line 40 for the empty text and on line 41 otherwise;
  no audio has been read, no frame rendered and no duration computed, so none is NaN or
  infinite. Whatever the font, the run raises, renders nothing and does not reach the
  division of line 46.
\<close>

theorem text_without_words_rejected:
  assumes "split_text text = []"
  shows "(path_exists E font_path \<and> font_parses E font_path (FONT_SIZE cfg)
          \<longrightarrow> text_to_video cfg E text font_path bgs out w
                = \<lparr>outcome = Inl AssertionError,
                   final = (if text = [] then w
                            else w\<lparr>temp_mp3 := gtts_leftover E text (temp_mp3 w)\<rparr>),
                   rendered = []\<rparr>
              \<and> text_to_video_api cfg E text font_path bgs out w
                = \<lparr>outcome = Inl AssertionError,
                   final = (if text = [] then w
                            else w\<lparr>temp_mp3 := gtts_leftover E text (temp_mp3 w)\<rparr>),
                   rendered = []\<rparr>)
         \<and> isl (outcome (text_to_video cfg E text font_path bgs out w))
         \<and> outcome (text_to_video cfg E text font_path bgs out w) \<noteq> Inl ZeroDivisionError
         \<and> rendered (text_to_video cfg E text font_path bgs out w) = []
         \<and> isl (outcome (text_to_video_api cfg E text font_path bgs out w))
         \<and> outcome (text_to_video_api cfg E text font_path bgs out w) \<noteq> Inl ZeroDivisionError
         \<and> rendered (text_to_video_api cfg E text font_path bgs out w) = []"
  by (simp add: text_to_video_def text_to_video_api_def truetype_def no_words_run [OF assms])

theorem text_without_words_rejected_witness:
  "split_text [] = [] \<and> split_text (ascii ''  '') = [] \<and> split_text [0xA0, 0x2003] = []
   \<and> text_to_video default_config (sample_env 1200) [] ''font.ttf'' [''a.png''] ''out.mp4''
         empty_world
       = \<lparr>outcome = Inl AssertionError, final = empty_world, rendered = []\<rparr>
   \<and> text_to_video_api default_config (sample_env 1200) [] ''font.ttf'' [''a.png''] ''out.mp4''
         empty_world
       = \<lparr>outcome = Inl AssertionError, final = empty_world, rendered = []\<rparr>
   \<and> text_to_video default_config (sample_env 1200) (ascii ''  '') ''font.ttf'' [''a.png'']
         ''out.mp4'' empty_world
       = \<lparr>outcome = Inl AssertionError, final = empty_world, rendered = []\<rparr>
   \<and> text_to_video_api default_config (sample_env 1200) [0xA0, 0x2003] ''font.ttf'' [''a.png'']
         ''out.mp4'' empty_world
       = \<lparr>outcome = Inl AssertionError, final = empty_world, rendered = []\<rparr>
   \<and> outcome (text_to_video default_config (sample_env 1200) [] ''missing.ttf'' [''a.png'']
         ''out.mp4'' empty_world)
       = Inl OSError"
proof -
  have none: "split_text [] = []" and blank: "split_text (ascii ''  '') = []"
    and wide: "split_text [0xA0, 0x2003] = []"
    by (simp_all add: split_text_def is_space_def ascii_def)
  have font: "path_exists (sample_env 1200) ''font.ttf''
      \<and> font_parses (sample_env 1200) ''font.ttf'' (FONT_SIZE default_config)"
    by (simp add: sample_env_simps)
  have missing: "outcome (text_to_video default_config (sample_env 1200) [] ''missing.ttf''
         [''a.png''] ''out.mp4'' empty_world) = Inl OSError"
    by (simp add: text_to_video_def truetype_def sample_env_simps)
  from text_without_words_rejected [OF none, of "sample_env 1200" "''font.ttf''" default_config
         "[''a.png'']" "''out.mp4''" empty_world]
       text_without_words_rejected [OF blank, of "sample_env 1200" "''font.ttf''" default_config
         "[''a.png'']" "''out.mp4''" empty_world]
       text_without_words_rejected [OF wide, of "sample_env 1200" "''font.ttf''" default_config
         "[''a.png'']" "''out.mp4''" empty_world]
       font none blank wide missing
  show ?thesis
    by (simp add: sample_env_simps empty_world_def ascii_def)
qed

text \<open>
  C6: the temporary audio file is removed by the last statement of the function only.
  When writing the video fails, or when the list of background images is empty, the
  function is left by an exception and the file stays; after a successful run it is gone.
\<close>

theorem temp_file_left_after_failure:
  "text_to_video default_config (sample_env 800) (ascii ''hello world'') ''font.ttf'' [''a.png'']
       ''readonly.mp4'' empty_world
     = \<lparr>outcome = Inl WriteVideoError,
        final = \<lparr>temp_mp3 = Some 800, videos = []\<rparr>,
        rendered =
          [\<lparr>frame_word = ascii ''hello'', frame_background = ''a.png'',
            frame_position = (290, 870), frame_fill = (0, 0, 0)\<rparr>,
           \<lparr>frame_word = ascii ''world'', frame_background = ''a.png'',
            frame_position = (290, 870), frame_fill = (0, 0, 0)\<rparr>]\<rparr>
   \<and> final (text_to_video_api default_config (sample_env 800) (ascii ''hello world'') ''font.ttf''
              [''a.png''] ''readonly.mp4'' empty_world)
     = \<lparr>temp_mp3 = Some 800, videos = []\<rparr>
   \<and> final (text_to_video default_config (sample_env 800) (ascii ''hello world'') ''font.ttf'' []
              ''out.mp4'' empty_world)
     = \<lparr>temp_mp3 = Some 800, videos = []\<rparr>
   \<and> final (text_to_video default_config (sample_env 800) (ascii ''hello world'') ''font.ttf''
              [''a.png''] ''out.mp4'' empty_world)
     = \<lparr>temp_mp3 = None,
        videos = [(''out.mp4'',
          \<lparr>clip_images =
             [\<lparr>frame_word = ascii ''hello'', frame_background = ''a.png'',
               frame_position = (290, 870), frame_fill = (0, 0, 0)\<rparr>,
              \<lparr>frame_word = ascii ''world'', frame_background = ''a.png'',
               frame_position = (290, 870), frame_fill = (0, 0, 0)\<rparr>],
           clip_durations = [2 / 5, 2 / 5], clip_audio = 800, clip_fps = 24\<rparr>)]\<rparr>"
  by (simp add: run_simps)

subsection \<open>The background schedule\<close>



text \<open>
  The loop follows \<open>advance\<close>: the frame of the word after \<open>k\<close> others shows the image
  whose index the schedule holds after \<open>k\<close> advances by the average duration, starting
  from the check of the first iteration.
\<close>

lemma render_words_follows_advance:
  assumes "render_words cfg E fnt bgs avg (ws @ [word]) st = Inr st'"
    and "change_background cfg (length bgs) (sch st) = Inr s0"
  shows "\<exists>s. advance_all cfg (length bgs) (replicate (length ws) avg) s0 = Inr s
           \<and> frame_background (last (images st')) = bgs ! current_background_index s"
  using assms
proof (induction ws arbitrary: st s0)
  case Nil
  then show ?case
    by (auto simp: render_word_def draw_word_def Let_def split: sum.splits if_splits prod.splits)
next
  case (Cons x xs)
  from Cons.prems(1) obtain st1 where
    one: "render_word cfg E fnt bgs avg x st = Inr st1" and
    more: "render_words cfg E fnt bgs avg (xs @ [word]) st1 = Inr st'"
    by (auto split: sum.splits)
  from one Cons.prems(2) have sch1: "sch st1 = s0\<lparr>image_duration := image_duration s0 + avg\<rparr>"
    by (auto simp: render_word_def Let_def split: if_splits)
  from more obtain s1 where check1: "change_background cfg (length bgs) (sch st1) = Inr s1"
    by (cases xs) (auto simp: render_word_def split: sum.splits)
  with sch1 have step: "advance cfg (length bgs) avg s0 = Inr s1"
    by (simp add: advance_def)
  from Cons.IH [OF more check1] step show ?case
    by simp
qed




text \<open>
  C8: with the intervals 10, 22, 35, at least two images and advances of 5 seconds from
  the initial state of lines 49 to 51, the index is still 0 after 5 seconds and switches
  to 1 when 10 seconds are reached. After the switch it stays 1 as long as the time since
  the switch is below the new change time, and switches again when that is reached.
\<close>

theorem first_switch_at_ten_seconds:
  assumes "BACKGROUND_INTERVALS cfg = [10, 22, 35]" and "2 \<le> n"
  shows "advance_all cfg n [5]
             \<lparr>current_background_index = 0, background_change_time = 10, image_duration = 0\<rparr>
           = Inr \<lparr>current_background_index = 0, background_change_time = 10,
                  image_duration = 5\<rparr>
         \<and> advance_all cfg n [5, 5]
             \<lparr>current_background_index = 0, background_change_time = 10, image_duration = 0\<rparr>
           = Inr \<lparr>current_background_index = 1, background_change_time = 32,
                  image_duration = 0\<rparr>
         \<and> advance_all cfg n [5, 5, 5, 5, 5, 5]
             \<lparr>current_background_index = 1, background_change_time = 32, image_duration = 0\<rparr>
           = Inr \<lparr>current_background_index = 1, background_change_time = 32,
                  image_duration = 30\<rparr>
         \<and> advance_all cfg n [5, 5, 5, 5, 5, 5, 5]
             \<lparr>current_background_index = 1, background_change_time = 32, image_duration = 0\<rparr>
           = Inr \<lparr>current_background_index = 2 mod n,
                  background_change_time = (if n = 2 then 42 else 67),
                  image_duration = 0\<rparr>"
proof (cases "n = 2")
  case True
  with assms(1) show ?thesis
    by (simp add: advance_def change_background_def Let_def)
next
  case False
  with assms(2) have "Suc 0 mod n = 1" and "Suc (Suc 0) mod n = 2" and "2 mod n = 2" and "0 < n"
    by simp_all
  with assms(1) False show ?thesis
    by (simp add: advance_def change_background_def Let_def)
qed

theorem first_switch_at_ten_seconds_witness:
  "BACKGROUND_INTERVALS default_config = [10, 22, 35] \<and> (2::nat) \<le> 3
   \<and> advance_all default_config 3 [5]
       \<lparr>current_background_index = 0, background_change_time = 10, image_duration = 0\<rparr>
     = Inr \<lparr>current_background_index = 0, background_change_time = 10, image_duration = 5\<rparr>
   \<and> advance_all default_config 3 [5, 5]
       \<lparr>current_background_index = 0, background_change_time = 10, image_duration = 0\<rparr>
     = Inr \<lparr>current_background_index = 1, background_change_time = 32, image_duration = 0\<rparr>
   \<and> advance_all default_config 3 [5, 5, 5, 5, 5, 5, 5]
       \<lparr>current_background_index = 1, background_change_time = 32, image_duration = 0\<rparr>
     = Inr \<lparr>current_background_index = 2, background_change_time = 67, image_duration = 0\<rparr>
   \<and> map frame_background
         (rendered (text_to_video default_config (sample_env 60000) (ascii ''a b c d e f g h i j k l'')
            ''font.ttf'' [''0.png'', ''1.png'', ''2.png''] ''out.mp4'' empty_world))
     = [''0.png'', ''0.png'', ''1.png'', ''1.png'', ''1.png'', ''1.png'', ''1.png'', ''1.png'',
        ''1.png'', ''2.png'', ''2.png'', ''2.png'']"
proof -
  have ivs: "BACKGROUND_INTERVALS default_config = [10, 22, 35]" and n: "(2::nat) \<le> 3"
    by (simp_all add: default_config_simps)
  have run: "map frame_background
         (rendered (text_to_video default_config (sample_env 60000) (ascii ''a b c d e f g h i j k l'')
            ''font.ttf'' [''0.png'', ''1.png'', ''2.png''] ''out.mp4'' empty_world))
     = [''0.png'', ''0.png'', ''1.png'', ''1.png'', ''1.png'', ''1.png'', ''1.png'', ''1.png'',
        ''1.png'', ''2.png'', ''2.png'', ''2.png'']"
    by (simp add: run_simps)
  from first_switch_at_ten_seconds [OF ivs n] ivs run show ?thesis
    by simp
qed







end
